theory Spec2Isabelle
  imports Main "HOL-Library.Sublist"
begin

section \<open>The conversation memory of the Ollama client\<close>

text \<open>
  The class \<open>ConversationMemory\<close> (mcp-ollama-client.js; demo-memory.js repeats it
  without the method \<open>clear\<close>) keeps the most recent chat messages and folds the messages it drops
  into a running summary string. The specification calls it the conversation window:
  \<open>record\<close> is \<open>addMessage\<close>, \<open>summarize\<close> is \<open>updateSummary\<close>, \<open>render\<close> is
  \<open>getContextString\<close>, \<open>snapshot\<close> is \<open>getHistory\<close>, \<open>maxTurns\<close> is \<open>maxMessages\<close>.

  JavaScript strings are modelled as \<open>string\<close>, and \<open>role\<close> and \<open>content\<close> are strings,
  as the specification requires of the caller and as every call site passes them. The
  number \<open>maxMessages\<close> is an \<open>int\<close>: the specification fixes it to be an integer (the
  call sites pass 15 and 5, the default is 20), and the constructor does not reject
  zero or a negative one. The object is a record that every method takes and gives
  back. The clock read by \<open>new Date().toISOString()\<close> is an argument of \<open>addMessage\<close>.
\<close>

subsection \<open>Data\<close>

record message =
  role :: string
  content :: string
  timestamp :: string

record ConversationMemory =
  messages :: "message list"
  maxMessages :: int
  summary :: string

text \<open>The object literal returned by \<open>getHistory\<close>.\<close>

record history =
  messages_h :: "message list"
  summary_h :: string
  totalMessages :: nat

subsection \<open>Built-ins of the language\<close>

text \<open>\<open>String.prototype.includes(t)\<close>: does \<open>t\<close> occur in \<open>s\<close> as a contiguous run.\<close>

fun includes_str :: "string \<Rightarrow> string \<Rightarrow> bool" where
  "includes_str [] t = (t = [])"
| "includes_str (c # cs) t = (prefix t (c # cs) \<or> includes_str cs t)"

text \<open>\<open>Array.prototype.join(sep)\<close> on an array of strings.\<close>

fun join :: "string \<Rightarrow> string list \<Rightarrow> string" where
  "join sep [] = []"
| "join sep [x] = x"
| "join sep (x # y # ys) = x @ sep @ join sep (y # ys)"

text \<open>
  \<open>Array.prototype.splice(0, deleteCount)\<close>: the count is clamped to the range from 0
  to the length; the removed elements are returned, the others stay in the array.
  The result is the pair (removed, remaining).
\<close>

definition splice0 :: "int \<Rightarrow> 'a list \<Rightarrow> 'a list \<times> 'a list" where
  "splice0 deleteCount xs =
     (let actualDeleteCount = nat (min (max deleteCount 0) (int (length xs)))
      in (take actualDeleteCount xs, drop actualDeleteCount xs))"

subsection \<open>The methods\<close>

text \<open>\<open>constructor(maxMessages = 20)\<close>: \<open>None\<close> is the omitted argument.\<close>

definition new_ConversationMemory :: "int option \<Rightarrow> ConversationMemory" where
  "new_ConversationMemory arg =
     \<lparr>messages = [],
      maxMessages = (case arg of None \<Rightarrow> 20 | Some n \<Rightarrow> n),
      summary = []\<rparr>"

definition taskAction :: "message \<Rightarrow> bool" where
  "taskAction msg =
     (includes_str (content msg) ''created'' \<or>
      includes_str (content msg) ''scheduled'' \<or>
      includes_str (content msg) ''deleted'' \<or>
      includes_str (content msg) ''updated'')"

definition updateSummary :: "ConversationMemory \<Rightarrow> message list \<Rightarrow> ConversationMemory" where
  "updateSummary cm oldMessages =
     (if length oldMessages > 0 then
        (let taskActions = filter taskAction oldMessages in
         if length taskActions > 0 then
           cm\<lparr>summary := summary cm @ (CHR 0x0A # ''Previous session: '') @
                 join ''; '' (map content taskActions) @ ''.''\<rparr>
         else cm)
      else cm)"

definition addMessage ::
  "ConversationMemory \<Rightarrow> string \<Rightarrow> string \<Rightarrow> string \<Rightarrow> ConversationMemory" where
  "addMessage cm r c now =
     (let pushed = messages cm @ [\<lparr>role = r, content = c, timestamp = now\<rparr>] in
      if int (length pushed) > maxMessages cm then
        (let (oldMessages, rest) = splice0 (int (length pushed) - maxMessages cm) pushed
         in updateSummary (cm\<lparr>messages := rest\<rparr>) oldMessages)
      else cm\<lparr>messages := pushed\<rparr>)"

text \<open>
  \<open>getContextString\<close>: the local variable \<open>context\<close> grows by \<open>+=\<close>; the \<open>forEach\<close>
  is a left fold over the messages. A string is truthy when it is not empty.
\<close>

definition getContextString :: "ConversationMemory \<Rightarrow> string" where
  "getContextString cm =
     (let context = [];
          context = (if summary cm \<noteq> [] then
                       context @ ''Summary of earlier conversation: '' @ summary cm @
                         [CHR 0x0A, CHR 0x0A]
                     else context);
          context = (if length (messages cm) > 0 then
                       foldl (\<lambda>ctx msg. ctx @ role msg @ '': '' @ content msg @ [CHR 0x0A])
                         (context @ ''Recent conversation:'' @ [CHR 0x0A]) (messages cm)
                     else context)
      in context)"

definition clear :: "ConversationMemory \<Rightarrow> ConversationMemory" where
  "clear cm = cm\<lparr>messages := [], summary := []\<rparr>"

definition getHistory :: "ConversationMemory \<Rightarrow> history" where
  "getHistory cm =
     \<lparr>messages_h = messages cm, summary_h = summary cm,
      totalMessages = length (messages cm)\<rparr>"

subsection \<open>Calling the object\<close>

text \<open>
  A method call on the object either completes with a value and the updated object or
  throws. None of the methods contains a \<open>throw\<close>, and on string arguments none of
  the built-ins they call (\<open>push\<close>, \<open>splice\<close>, \<open>filter\<close>, \<open>includes\<close>, \<open>map\<close>, \<open>join\<close>,
  \<open>forEach\<close>) raises, so every call completes: no equation of \<open>invoke\<close> returns \<open>Inl\<close>.
\<close>

datatype js_error = TypeError | RangeError

datatype call =
    AddMessage string string string
  | GetContextString
  | Clear
  | GetHistory

datatype retval = Undefined | Str string | Hist history

fun invoke :: "ConversationMemory \<Rightarrow> call \<Rightarrow> js_error + (retval \<times> ConversationMemory)" where
  "invoke cm (AddMessage r c now) = Inr (Undefined, addMessage cm r c now)"
| "invoke cm GetContextString = Inr (Str (getContextString cm), cm)"
| "invoke cm Clear = Inr (Undefined, clear cm)"
| "invoke cm GetHistory = Inr (Hist (getHistory cm), cm)"

text \<open>
  A conversation: \<open>addMessage\<close> called once for each (role, content, time) of a list,
  in order. \<open>turn\<close> is the message object that such a call pushes.
\<close>

definition turn :: "string \<times> string \<times> string \<Rightarrow> message" where
  "turn = (\<lambda>(r, c, now). \<lparr>role = r, content = c, timestamp = now\<rparr>)"

definition record_all ::
  "ConversationMemory \<Rightarrow> (string \<times> string \<times> string) list \<Rightarrow> ConversationMemory" where
  "record_all = foldl (\<lambda>cm (r, c, now). addMessage cm r c now)"

text \<open>
  The conversation of the specification's concrete scenario, for a window of three
  messages, and the state after its first three calls.
\<close>

definition scenario :: "(string \<times> string \<times> string) list" where
  "scenario =
     [(''user'', ''Schedule a meeting'', ''2025-01-01T10:00:00.000Z''),
      (''assistant'', ''created the meeting'', ''2025-01-01T10:00:05.000Z''),
      (''user'', ''show tasks'', ''2025-01-01T10:01:00.000Z''),
      (''assistant'', ''found 1 task'', ''2025-01-01T10:01:04.000Z'')]"

definition three_recorded :: ConversationMemory where
  "three_recorded =
     \<lparr>messages =
        [\<lparr>role = ''user'', content = ''Schedule a meeting'',
          timestamp = ''2025-01-01T10:00:00.000Z''\<rparr>,
         \<lparr>role = ''assistant'', content = ''created the meeting'',
          timestamp = ''2025-01-01T10:00:05.000Z''\<rparr>,
         \<lparr>role = ''user'', content = ''show tasks'',
          timestamp = ''2025-01-01T10:01:00.000Z''\<rparr>],
      maxMessages = 3,
      summary = []\<rparr>"

section \<open>Properties\<close>

subsection \<open>What a call changes\<close>

lemma maxMessages_updateSummary [simp]: "maxMessages (updateSummary cm old) = maxMessages cm"
  by (simp add: updateSummary_def Let_def)

lemma messages_updateSummary [simp]: "messages (updateSummary cm old) = messages cm"
  by (simp add: updateSummary_def Let_def)

lemma maxMessages_addMessage [simp]: "maxMessages (addMessage cm r c now) = maxMessages cm"
  by (simp add: addMessage_def Let_def splice0_def)

lemma messages_addMessage:
  "messages (addMessage cm r c now) =
     (let pushed = messages cm @ [\<lparr>role = r, content = c, timestamp = now\<rparr>] in
      if int (length pushed) > maxMessages cm
      then drop (nat (min (max (int (length pushed) - maxMessages cm) 0) (int (length pushed)))) pushed
      else pushed)"
  by (simp add: addMessage_def Let_def splice0_def)

lemma messages_addMessage_nonneg:
  assumes "0 \<le> maxMessages cm"
  shows "messages (addMessage cm r c now) =
     drop (Suc (length (messages cm)) - nat (maxMessages cm))
       (messages cm @ [\<lparr>role = r, content = c, timestamp = now\<rparr>])"
proof -
  let ?p = "messages cm @ [\<lparr>role = r, content = c, timestamp = now\<rparr>]"
  show ?thesis
  proof (cases "int (length ?p) > maxMessages cm")
    case True
    with assms have "nat (min (max (int (length ?p) - maxMessages cm) 0) (int (length ?p)))
        = Suc (length (messages cm)) - nat (maxMessages cm)"
      by simp
    with True show ?thesis by (simp add: messages_addMessage Let_def del: drop_append)
  next
    case False
    then have "Suc (length (messages cm)) - nat (maxMessages cm) = 0" by simp
    with False show ?thesis by (simp add: messages_addMessage Let_def del: drop_append)
  qed
qed

lemma length_addMessage:
  assumes "0 \<le> maxMessages cm"
  shows "int (length (messages (addMessage cm r c now))) \<le> maxMessages cm"
  using assms by (simp add: messages_addMessage_nonneg)

lemma record_all_Nil [simp]: "record_all cm [] = cm"
  by (simp add: record_all_def)

lemma record_all_snoc [simp]:
  "record_all cm (calls @ [(r, c, now)]) = addMessage (record_all cm calls) r c now"
  by (simp add: record_all_def)

lemma maxMessages_record_all [simp]: "maxMessages (record_all cm calls) = maxMessages cm"
  by (induction calls rule: rev_induct) auto

lemma lastn_snoc:
  "drop (Suc (length (drop (length xs - n) xs)) - n) (drop (length xs - n) xs @ [y]) =
   drop (Suc (length xs) - n) (xs @ [y])"
proof (cases "length xs < n")
  case True
  then show ?thesis by simp
next
  case False
  then have len: "length (drop (length xs - n) xs) = n" by simp
  show ?thesis
  proof (cases n)
    case 0
    then show ?thesis by simp
  next
    case (Suc m)
    with False have k: "Suc (length xs) - n = Suc (length xs - n)" "Suc (length xs - n) \<le> length xs"
      by simp_all
    have "drop (Suc n - n) (drop (length xs - n) xs @ [y]) = drop (Suc (length xs - n)) xs @ [y]"
      using Suc False by simp
    also have "\<dots> = drop (Suc (length xs) - n) (xs @ [y])"
      using k by simp
    finally show ?thesis by (simp only: len)
  qed
qed

lemma messages_record_all:
  assumes "0 \<le> maxMessages cm" "int (length (messages cm)) \<le> maxMessages cm"
  shows "messages (record_all cm calls) =
     drop (length (messages cm @ map turn calls) - nat (maxMessages cm)) (messages cm @ map turn calls)"
proof (induction calls rule: rev_induct)
  case Nil
  from assms show ?case by simp
next
  case (snoc x calls)
  obtain r c now where x: "x = (r, c, now)" by (cases x)
  let ?all = "messages cm @ map turn calls"
  let ?n = "nat (maxMessages cm)"
  have "messages (record_all cm (calls @ [x])) =
      drop (Suc (length (drop (length ?all - ?n) ?all)) - ?n) (drop (length ?all - ?n) ?all @ [turn x])"
    using assms(1) snoc.IH by (simp add: x messages_addMessage_nonneg turn_def del: drop_append)
  also have "\<dots> = drop (Suc (length ?all) - ?n) (?all @ [turn x])"
    by (rule lastn_snoc)
  finally show ?case by simp
qed

subsection \<open>Substrings, the filter and the fold\<close>

lemma includes_str_sublist: "includes_str s t \<longleftrightarrow> sublist t s"
  by (induction s) (simp_all add: sublist_Cons_right)

lemma taskAction_keywords:
  "taskAction m \<longleftrightarrow>
     (\<exists>kw\<in>{''created'', ''scheduled'', ''deleted'', ''updated''}. sublist kw (content m))"
  by (simp add: taskAction_def includes_str_sublist)

lemma filter_taskAction:
  "filter taskAction old =
     filter (\<lambda>m. \<exists>kw\<in>{''created'', ''scheduled'', ''deleted'', ''updated''}. sublist kw (content m)) old"
  by (rule filter_cong) (simp_all only: taskAction_keywords)

lemma updateSummary_cases:
  "updateSummary cm old =
     (if filter taskAction old = [] then cm
      else cm\<lparr>summary := summary cm @ (CHR 0x0A # ''Previous session: '') @
             join ''; '' (map content (filter taskAction old)) @ ''.''\<rparr>)"
  by (cases old) (simp_all add: updateSummary_def Let_def)

lemma foldl_append_each: "foldl (\<lambda>acc x. acc @ f x) acc xs = acc @ concat (map f xs)"
  by (induction xs arbitrary: acc) simp_all

lemma summary_updateSummary_prefix: "prefix (summary cm) (summary (updateSummary cm old))"
  by (simp add: updateSummary_cases)

lemma summary_addMessage_prefix: "prefix (summary cm) (summary (addMessage cm r c now))"
proof -
  have "prefix (summary (cm\<lparr>messages := ms\<rparr>)) (summary (updateSummary (cm\<lparr>messages := ms\<rparr>) old))" for ms old
    by (rule summary_updateSummary_prefix)
  then show ?thesis
    by (simp add: addMessage_def Let_def splice0_def)
qed

lemma summary_record_all_prefix: "prefix (summary cm) (summary (record_all cm calls))"
proof (induction calls rule: rev_induct)
  case Nil
  show ?case by simp
next
  case (snoc x calls)
  obtain r c now where "x = (r, c, now)" by (cases x)
  with snoc summary_addMessage_prefix [of "record_all cm calls" r c now]
  show ?case by (auto intro: prefix_order.trans)
qed

lemma summary_updateSummary:
  "summary (updateSummary cm old) =
     summary cm @
       (if filter taskAction old = [] then []
        else (CHR 0x0A # ''Previous session: '') @
             join ''; '' (map content (filter taskAction old)) @ ''.'')"
  by (simp add: updateSummary_cases)

lemma taskAction_role: "taskAction (m\<lparr>role := r\<rparr>) = taskAction m"
  by (simp add: taskAction_def)

lemma filter_taskAction_role:
  "filter taskAction (map (\<lambda>m. m\<lparr>role := f m\<rparr>) old) =
   map (\<lambda>m. m\<lparr>role := f m\<rparr>) (filter taskAction old)"
proof (induction old)
  case Nil
  show ?case by simp
next
  case (Cons a old)
  then show ?case by (simp add: taskAction_role)
qed

lemma updateSummary_role:
  "updateSummary cm (map (\<lambda>m. m\<lparr>role := f m\<rparr>) old) = updateSummary cm old"
proof -
  have c: "map content (map (\<lambda>m. m\<lparr>role := f m\<rparr>) xs) = map content xs" for xs
    by (induction xs) simp_all
  show ?thesis
    unfolding updateSummary_cases filter_taskAction_role c by simp
qed

subsection \<open>The bound on the window\<close>

text \<open>
  C1. On a memory constructed with a positive \<open>maxMessages\<close>, after each call of a
  sequence of \<open>addMessage\<close> calls (that is, after every prefix of the sequence) the
  number of retained messages is at most \<open>maxMessages\<close>, which no call changes.
\<close>

theorem record_bounded:
  assumes "0 < maxMessages (new_ConversationMemory arg)" and "k \<le> length calls"
  shows "int (length (messages (record_all (new_ConversationMemory arg) (take k calls))))
           \<le> maxMessages (new_ConversationMemory arg) \<and>
         maxMessages (record_all (new_ConversationMemory arg) (take k calls))
           = maxMessages (new_ConversationMemory arg)"
proof (cases "take k calls" rule: rev_cases)
  case Nil
  have "messages (new_ConversationMemory arg) = []"
    by (simp add: new_ConversationMemory_def)
  with assms(1) show ?thesis unfolding Nil by simp
next
  case (snoc cs x)
  obtain r c now where "x = (r, c, now)" by (cases x)
  with snoc assms(1) length_addMessage [of "record_all (new_ConversationMemory arg) cs" r c now]
  show ?thesis by simp
qed

theorem record_bounded_witness:
  "0 < maxMessages (new_ConversationMemory (Some 3)) \<and>
   4 \<le> length scenario \<and>
   int (length (messages (record_all (new_ConversationMemory (Some 3)) (take 4 scenario))))
     \<le> maxMessages (new_ConversationMemory (Some 3)) \<and>
   maxMessages (record_all (new_ConversationMemory (Some 3)) (take 4 scenario))
     = maxMessages (new_ConversationMemory (Some 3))"
proof -
  have h1: "0 < maxMessages (new_ConversationMemory (Some 3))"
    by (simp add: new_ConversationMemory_def)
  have h2: "4 \<le> length scenario"
    by (simp add: scenario_def)
  from record_bounded [OF h1 h2] h1 h2 show ?thesis by blast
qed

text \<open>
  C2. On a memory constructed with a positive \<open>maxMessages\<close>, the retained messages
  after a sequence of \<open>addMessage\<close> calls are the last \<open>maxMessages\<close> (or all, if fewer)
  of the messages recorded, in the order of the calls. In any state with a positive
  \<open>maxMessages\<close>, when the push makes the count exceed \<open>maxMessages\<close>, the pushed list
  is the evicted batch followed by the retained messages, the batch has exactly
  count - \<open>maxMessages\<close> messages, and it is the batch given to \<open>updateSummary\<close>.
\<close>

theorem retained_most_recent:
  "(0 < maxMessages (new_ConversationMemory arg) \<longrightarrow>
      messages (record_all (new_ConversationMemory arg) calls) =
        drop (length calls - nat (maxMessages (new_ConversationMemory arg))) (map turn calls)) \<and>
   (0 < maxMessages cm \<longrightarrow> maxMessages cm < int (length (messages cm @ [turn (r, c, now)])) \<longrightarrow>
      (\<exists>evicted.
         int (length evicted) = int (length (messages cm @ [turn (r, c, now)])) - maxMessages cm \<and>
         messages cm @ [turn (r, c, now)] = evicted @ messages (addMessage cm r c now) \<and>
         addMessage cm r c now =
           updateSummary (cm\<lparr>messages := messages (addMessage cm r c now)\<rparr>) evicted))"
proof (intro conjI impI)
  assume "0 < maxMessages (new_ConversationMemory arg)"
  then show "messages (record_all (new_ConversationMemory arg) calls) =
        drop (length calls - nat (maxMessages (new_ConversationMemory arg))) (map turn calls)"
    using messages_record_all [of "new_ConversationMemory arg" calls]
    by (simp add: new_ConversationMemory_def)
next
  let ?pushed = "messages cm @ [turn (r, c, now)]"
  assume pos: "0 < maxMessages cm" and over: "maxMessages cm < int (length ?pushed)"
  define k where "k = nat (int (length ?pushed) - maxMessages cm)"
  have k: "nat (min (max (int (length ?pushed) - maxMessages cm) 0) (int (length ?pushed))) = k"
    using pos over by (simp add: k_def)
  have add: "addMessage cm r c now = updateSummary (cm\<lparr>messages := drop k ?pushed\<rparr>) (take k ?pushed)"
    using over k by (simp add: addMessage_def Let_def splice0_def turn_def del: drop_append take_append)
  have "int (length (take k ?pushed)) = int (length ?pushed) - maxMessages cm"
    using pos over by (simp add: k_def)
  moreover have "?pushed = take k ?pushed @ messages (addMessage cm r c now)"
    by (simp add: add del: drop_append take_append)
  moreover have "addMessage cm r c now =
      updateSummary (cm\<lparr>messages := messages (addMessage cm r c now)\<rparr>) (take k ?pushed)"
    by (simp add: add del: drop_append take_append)
  ultimately show "\<exists>evicted.
         int (length evicted) = int (length ?pushed) - maxMessages cm \<and>
         ?pushed = evicted @ messages (addMessage cm r c now) \<and>
         addMessage cm r c now =
           updateSummary (cm\<lparr>messages := messages (addMessage cm r c now)\<rparr>) evicted"
    by blast
qed

theorem retained_most_recent_witness:
  "(0 < maxMessages (new_ConversationMemory (Some 3)) \<and>
      messages (record_all (new_ConversationMemory (Some 3)) scenario) =
        drop (length scenario - nat (maxMessages (new_ConversationMemory (Some 3)))) (map turn scenario)) \<and>
   (0 < maxMessages three_recorded \<and>
    maxMessages three_recorded < int (length (messages three_recorded @ [turn (''assistant'', ''found 1 task'', ''2025-01-01T10:01:04.000Z'')])) \<and>
      (\<exists>evicted.
         int (length evicted) = int (length (messages three_recorded @ [turn (''assistant'', ''found 1 task'', ''2025-01-01T10:01:04.000Z'')])) - maxMessages three_recorded \<and>
         messages three_recorded @ [turn (''assistant'', ''found 1 task'', ''2025-01-01T10:01:04.000Z'')] = evicted @ messages (addMessage three_recorded ''assistant'' ''found 1 task'' ''2025-01-01T10:01:04.000Z'') \<and>
         addMessage three_recorded ''assistant'' ''found 1 task'' ''2025-01-01T10:01:04.000Z'' =
           updateSummary (three_recorded\<lparr>messages := messages (addMessage three_recorded ''assistant'' ''found 1 task'' ''2025-01-01T10:01:04.000Z'')\<rparr>) evicted))"
proof -
  have h1: "0 < maxMessages (new_ConversationMemory (Some 3))"
    by (simp add: new_ConversationMemory_def)
  have h2: "0 < maxMessages three_recorded"
    by (simp add: three_recorded_def)
  have h3: "maxMessages three_recorded < int (length (messages three_recorded @ [turn (''assistant'', ''found 1 task'', ''2025-01-01T10:01:04.000Z'')]))"
    by (simp add: three_recorded_def)
  from retained_most_recent [of "Some 3" scenario three_recorded  "''assistant''" "''found 1 task''" "''2025-01-01T10:01:04.000Z''"] h1 h2 h3
  show ?thesis by blast
qed

subsection \<open>The concrete scenario\<close>

text \<open>
  C3. With \<open>maxMessages = 3\<close> and the four calls of the scenario: after the fourth call
  \<open>totalMessages\<close> is 3, the batch spliced off is the single message
  (user, "Schedule a meeting"), the summary is still empty and the retained messages
  are the last three in their order. One more call evicts
  (assistant, "created the meeting"); the summary is then not empty and contains
  "created the meeting".
\<close>

theorem scenario_three_turns:
  "(let cm4 = record_all (new_ConversationMemory (Some 3)) scenario;
        cm5 = addMessage cm4 ''user'' ''thanks'' ''2025-01-01T10:02:00.000Z''
    in record_all (new_ConversationMemory (Some 3)) (take 3 scenario) = three_recorded \<and>
       cm4 = addMessage three_recorded ''assistant'' ''found 1 task'' ''2025-01-01T10:01:04.000Z'' \<and>
       totalMessages (getHistory cm4) = 3 \<and>
       fst (splice0 (int (length (messages three_recorded) + 1) - maxMessages three_recorded)
              (messages three_recorded @ [turn (''assistant'', ''found 1 task'', ''2025-01-01T10:01:04.000Z'')]))
         = [\<lparr>role = ''user'', content = ''Schedule a meeting'', timestamp = ''2025-01-01T10:00:00.000Z''\<rparr>] \<and>
       summary cm4 = [] \<and>
       messages cm4 = map turn (drop 1 scenario) \<and>
       fst (splice0 (int (length (messages cm4) + 1) - maxMessages cm4)
              (messages cm4 @ [turn (''user'', ''thanks'', ''2025-01-01T10:02:00.000Z'')]))
         = [\<lparr>role = ''assistant'', content = ''created the meeting'', timestamp = ''2025-01-01T10:00:05.000Z''\<rparr>] \<and>
       summary cm5 \<noteq> [] \<and>
       sublist ''created the meeting'' (summary cm5) \<and>
       summary cm5 = CHR 0x0A # ''Previous session: created the meeting.'')"
  by code_simp

subsection \<open>The summarizer\<close>

text \<open>
  C4. For every batch given to \<open>updateSummary\<close>: when no message of the batch has a
  content that contains one of the four keywords, the object is unchanged; when at
  least one has, the summary grows by exactly one segment: a line break and
  "Previous session: ", then the contents of the matching messages joined with "; ",
  then ".". Nothing else of the object changes.
\<close>

theorem summarize_appends_one_segment:
  "(\<not> (\<exists>m\<in>set old. \<exists>kw\<in>{''created'', ''scheduled'', ''deleted'', ''updated''}.
          sublist kw (content m)) \<longrightarrow>
      updateSummary cm old = cm) \<and>
   ((\<exists>m\<in>set old. \<exists>kw\<in>{''created'', ''scheduled'', ''deleted'', ''updated''}.
          sublist kw (content m)) \<longrightarrow>
      updateSummary cm old =
        cm\<lparr>summary := summary cm @ (CHR 0x0A # ''Previous session: '') @
             join ''; '' (map content
               (filter (\<lambda>m. \<exists>kw\<in>{''created'', ''scheduled'', ''deleted'', ''updated''}.
                    sublist kw (content m)) old)) @ ''.''\<rparr>)"
proof -
  let ?P = "\<lambda>m. \<exists>kw\<in>{''created'', ''scheduled'', ''deleted'', ''updated''}. sublist kw (content m)"
  have eq: "filter taskAction old = filter ?P old" by (rule filter_taskAction)
  have none: "filter ?P old = [] \<longleftrightarrow> \<not> (\<exists>m\<in>set old. ?P m)"
    by (simp only: filter_empty_conv bex_simps)
  show ?thesis
    unfolding updateSummary_cases eq using none by auto
qed

theorem summarize_appends_one_segment_witness:
  "\<not> (\<exists>m\<in>set [turn (''user'', ''Schedule a meeting'', ''2025-01-01T10:00:00.000Z'')].
        \<exists>kw\<in>{''created'', ''scheduled'', ''deleted'', ''updated''}. sublist kw (content m)) \<and>
   updateSummary three_recorded
      [turn (''user'', ''Schedule a meeting'', ''2025-01-01T10:00:00.000Z'')] = three_recorded \<and>
   (\<exists>m\<in>set (map turn scenario).
        \<exists>kw\<in>{''created'', ''scheduled'', ''deleted'', ''updated''}. sublist kw (content m)) \<and>
   updateSummary (three_recorded\<lparr>summary := ''earlier''\<rparr>)
      (map turn scenario @ [turn (''assistant'', ''updated it'', ''2025-01-01T10:02:00.000Z'')]) =
     three_recorded\<lparr>summary := ''earlier'' @
        (CHR 0x0A # ''Previous session: created the meeting; updated it.'')\<rparr>"
proof -
  let ?P = "\<lambda>m. \<exists>kw\<in>{''created'', ''scheduled'', ''deleted'', ''updated''}. sublist kw (content m)"
  let ?old1 = "[turn (''user'', ''Schedule a meeting'', ''2025-01-01T10:00:00.000Z'')]"
  let ?old2 = "map turn scenario @ [turn (''assistant'', ''updated it'', ''2025-01-01T10:02:00.000Z'')]"
  have h1: "\<not> (\<exists>m\<in>set ?old1. ?P m)"
    by code_simp
  have h2: "\<exists>m\<in>set ?old2. ?P m"
    by code_simp
  have h2': "\<exists>m\<in>set (map turn scenario). ?P m"
    by code_simp
  have f2: "map content (filter ?P ?old2) = [''created the meeting'', ''updated it'']"
    by code_simp
  have r1: "updateSummary three_recorded ?old1 = three_recorded"
    using summarize_appends_one_segment [of ?old1 three_recorded] h1 by blast
  have "updateSummary (three_recorded\<lparr>summary := ''earlier''\<rparr>) ?old2 =
      (three_recorded\<lparr>summary := ''earlier''\<rparr>)\<lparr>summary := summary (three_recorded\<lparr>summary := ''earlier''\<rparr>) @
          (CHR 0x0A # ''Previous session: '') @ join ''; '' (map content (filter ?P ?old2)) @ ''.''\<rparr>"
    using summarize_appends_one_segment [of ?old2 "three_recorded\<lparr>summary := ''earlier''\<rparr>"] h2 by blast
  then have r2: "updateSummary (three_recorded\<lparr>summary := ''earlier''\<rparr>) ?old2 =
     three_recorded\<lparr>summary := ''earlier'' @
        (CHR 0x0A # ''Previous session: created the meeting; updated it.'')\<rparr>"
    unfolding f2 by simp
  from h1 r1 h2' r2 show ?thesis by blast
qed

subsection \<open>Rendering\<close>

text \<open>
  C5. For every state, \<open>getContextString\<close> is the summary block (the label
  "Summary of earlier conversation: ", the summary and two line breaks, so that a blank
  line follows) when the summary is not empty, and then, when a message is retained,
  the block labelled "Recent conversation:" with one line \<open>role: content\<close> for each
  retained message in their order. The summary block, when present, comes first.
\<close>

theorem render_layout:
  "getContextString cm =
     (if summary cm = [] then []
      else ''Summary of earlier conversation: '' @ summary cm @ [CHR 0x0A, CHR 0x0A]) @
     (if messages cm = [] then []
      else ''Recent conversation:'' @ [CHR 0x0A] @
           concat (map (\<lambda>m. role m @ '': '' @ content m @ [CHR 0x0A]) (messages cm)))"
proof -
  have "foldl (\<lambda>ctx msg. ctx @ role msg @ '': '' @ content msg @ [CHR 0x0A]) acc (messages cm)
      = acc @ concat (map (\<lambda>m. role m @ '': '' @ content m @ [CHR 0x0A]) (messages cm))" for acc
    by (rule foldl_append_each)
  then show ?thesis
    by (simp add: getContextString_def Let_def)
qed

subsection \<open>Roles are not validated\<close>

text \<open>
  C6, as stated, fails: \<open>addMessage\<close> called with the role "system", which is neither
  "user" nor "assistant", completes without an error and the message is in the window.
\<close>

theorem record_accepts_unknown_role:
  "''system'' \<notin> {''user'', ''assistant''} \<and>
   invoke (new_ConversationMemory (Some 3)) (AddMessage ''system'' ''hello'' ''2025-01-01T10:00:00.000Z'') =
     Inr (Undefined,
       \<lparr>messages = [\<lparr>role = ''system'', content = ''hello'', timestamp = ''2025-01-01T10:00:00.000Z''\<rparr>],
        maxMessages = 3, summary = []\<rparr>)"
  by (simp add: new_ConversationMemory_def addMessage_def)

text \<open>
  C6, amended. \<open>addMessage\<close> does not check the role: for every role string, also one
  that is neither "user" nor "assistant", the call completes without an error and
  returns nothing; when \<open>maxMessages\<close> is positive, the message is retained as the
  newest one, with the role exactly as it was given.
\<close>

theorem record_stores_any_role:
  "\<exists>cm'. invoke cm (AddMessage r c now) = Inr (Undefined, cm') \<and>
     (0 < maxMessages cm \<longrightarrow>
        messages cm' \<noteq> [] \<and>
        last (messages cm') = \<lparr>role = r, content = c, timestamp = now\<rparr>)"
proof -
  have "messages (addMessage cm r c now) \<noteq> [] \<and>
        last (messages (addMessage cm r c now)) = \<lparr>role = r, content = c, timestamp = now\<rparr>"
    if pos: "0 < maxMessages cm"
  proof -
    let ?p = "messages cm @ [\<lparr>role = r, content = c, timestamp = now\<rparr>]"
    have m: "messages (addMessage cm r c now) = drop (Suc (length (messages cm)) - nat (maxMessages cm)) ?p"
      using pos by (simp add: messages_addMessage_nonneg)
    have lt: "Suc (length (messages cm)) - nat (maxMessages cm) < length ?p"
      using pos by simp
    then have ne: "drop (Suc (length (messages cm)) - nat (maxMessages cm)) ?p \<noteq> []"
      by (simp del: drop_append)
    moreover have "last (drop (Suc (length (messages cm)) - nat (maxMessages cm)) ?p) = last ?p"
      using lt by (rule last_drop)
    ultimately show ?thesis unfolding m by simp
  qed
  then show ?thesis by simp
qed

theorem record_stores_any_role_witness:
  "0 < maxMessages three_recorded \<and>
   (\<exists>cm'. invoke three_recorded (AddMessage ''system'' ''hello'' ''2025-01-01T10:02:00.000Z'') =
            Inr (Undefined, cm') \<and>
          messages cm' \<noteq> [] \<and>
          last (messages cm') =
            \<lparr>role = ''system'', content = ''hello'', timestamp = ''2025-01-01T10:02:00.000Z''\<rparr>)"
proof -
  have h: "0 < maxMessages three_recorded"
    by (simp add: three_recorded_def)
  with record_stores_any_role [of three_recorded "''system''" "''hello''" "''2025-01-01T10:02:00.000Z''"]
  show ?thesis by blast
qed

subsection \<open>The summary only grows\<close>

text \<open>
  C7. After every \<open>addMessage\<close> call, and so after every sequence of them, the summary
  before the call is a prefix of the summary after it. Of all calls on the object only
  \<open>clear\<close> can shorten the summary: after any other call the old summary is a prefix of
  the new one. \<open>clear\<close> empties both the summary and the message list.
\<close>

theorem summary_append_only:
  "prefix (summary cm) (summary (addMessage cm r c now)) \<and>
   prefix (summary cm) (summary (record_all cm calls)) \<and>
   (\<forall>cl v cm'. cl \<noteq> Clear \<longrightarrow> invoke cm cl = Inr (v, cm') \<longrightarrow>
       prefix (summary cm) (summary cm')) \<and>
   summary (clear cm) = [] \<and> messages (clear cm) = []"
proof (intro conjI allI impI)
  show "prefix (summary cm) (summary (addMessage cm r c now))"
    by (rule summary_addMessage_prefix)
  show "prefix (summary cm) (summary (record_all cm calls))"
    by (rule summary_record_all_prefix)
  show "summary (clear cm) = []" "messages (clear cm) = []"
    by (simp_all add: clear_def)
next
  fix cl v cm'
  assume "cl \<noteq> Clear" and "invoke cm cl = Inr (v, cm')"
  then show "prefix (summary cm) (summary cm')"
    by (cases cl) (auto simp: summary_addMessage_prefix)
qed

theorem summary_append_only_witness:
  "AddMessage ''assistant'' ''updated the meeting'' ''2025-01-01T10:02:00.000Z'' \<noteq> Clear \<and>
   invoke (three_recorded\<lparr>summary := ''earlier''\<rparr>)
       (AddMessage ''assistant'' ''updated the meeting'' ''2025-01-01T10:02:00.000Z'') =
     Inr (Undefined, addMessage (three_recorded\<lparr>summary := ''earlier''\<rparr>)
       ''assistant'' ''updated the meeting'' ''2025-01-01T10:02:00.000Z'') \<and>
   prefix (summary (three_recorded\<lparr>summary := ''earlier''\<rparr>))
     (summary (addMessage (three_recorded\<lparr>summary := ''earlier''\<rparr>)
       ''assistant'' ''updated the meeting'' ''2025-01-01T10:02:00.000Z'')) \<and>
   summary (clear (three_recorded\<lparr>summary := ''earlier''\<rparr>)) = []"
proof -
  let ?cm = "three_recorded\<lparr>summary := ''earlier''\<rparr>"
  let ?cl = "AddMessage ''assistant'' ''updated the meeting'' ''2025-01-01T10:02:00.000Z''"
  let ?cm' = "addMessage ?cm ''assistant'' ''updated the meeting'' ''2025-01-01T10:02:00.000Z''"
  have h1: "?cl \<noteq> Clear" by simp
  have h2: "invoke ?cm ?cl = Inr (Undefined, ?cm')" by simp
  note t = summary_append_only [of ?cm "''assistant''" "''updated the meeting''"
      "''2025-01-01T10:02:00.000Z''" "[]"]
  from t have "\<forall>cl v cm'. cl \<noteq> Clear \<longrightarrow> invoke ?cm cl = Inr (v, cm') \<longrightarrow>
       prefix (summary ?cm) (summary cm')" by blast
  with h1 h2 have p: "prefix (summary ?cm) (summary ?cm')" by blast
  from t have "summary (clear ?cm) = []" by blast
  with h1 h2 p show ?thesis by blast
qed

text \<open>
  C8. \<open>getContextString\<close> on a memory with no message and an empty summary is the
  empty string, and \<open>getContextString\<close> right after \<open>clear\<close> is the empty string in
  every state.
\<close>

theorem render_empty:
  "(messages cm = [] \<and> summary cm = [] \<longrightarrow> getContextString cm = []) \<and>
   getContextString (clear cm) = []"
  by (simp add: getContextString_def clear_def Let_def)

theorem render_empty_witness:
  "messages (new_ConversationMemory None) = [] \<and>
   summary (new_ConversationMemory None) = [] \<and>
   getContextString (new_ConversationMemory None) = [] \<and>
   getContextString (clear three_recorded) = []"
proof -
  have h: "messages (new_ConversationMemory None) = [] \<and> summary (new_ConversationMemory None) = []"
    by (simp add: new_ConversationMemory_def)
  from render_empty [of "new_ConversationMemory None"] h
  have "getContextString (new_ConversationMemory None) = []" by blast
  moreover from render_empty [of three_recorded]
  have "getContextString (clear three_recorded) = []" by blast
  ultimately show ?thesis using h by blast
qed

text \<open>
  C9. \<open>getContextString\<close> and \<open>getHistory\<close> leave the object as it is, and the
  \<open>totalMessages\<close> that \<open>getHistory\<close> reports is the number of messages retained now;
  its other two fields are the message list and the summary.
\<close>

theorem readers_leave_state:
  "(\<exists>s. invoke cm GetContextString = Inr (Str s, cm)) \<and>
   (\<exists>h. invoke cm GetHistory = Inr (Hist h, cm) \<and>
        totalMessages h = length (messages cm) \<and>
        messages_h h = messages cm \<and> summary_h h = summary cm)"
  by (simp add: getHistory_def)

text \<open>
  C10. For every evicted batch, the segment that \<open>updateSummary\<close> appends is built
  from exactly the messages whose content contains "created", "scheduled", "deleted"
  or "updated" as written, in lower case, in their order, and nothing is appended when
  there is none; a single evicted message changes the summary exactly when its content
  contains one of the four. The role plays no part: changing the roles of the batch in
  any way changes nothing. So a user message with "created" is summarised, and an
  assistant message with only "Schedule", "Update" or the capitalised "Created" or
  "Deleted" is not.
\<close>

theorem summary_filter_keywords:
  "summary (updateSummary cm old) =
     summary cm @
       (if filter (\<lambda>m. \<exists>kw\<in>{''created'', ''scheduled'', ''deleted'', ''updated''}.
                 sublist kw (content m)) old = [] then []
        else (CHR 0x0A # ''Previous session: '') @
             join ''; '' (map content
               (filter (\<lambda>m. \<exists>kw\<in>{''created'', ''scheduled'', ''deleted'', ''updated''}.
                  sublist kw (content m)) old)) @ ''.'') \<and>
   ((summary (updateSummary cm [m]) = summary cm) \<longleftrightarrow>
      \<not> (\<exists>kw\<in>{''created'', ''scheduled'', ''deleted'', ''updated''}. sublist kw (content m))) \<and>
   updateSummary cm (map (\<lambda>m. m\<lparr>role := f m\<rparr>) old) = updateSummary cm old \<and>
   (m \<in> set (filter taskAction old) \<longleftrightarrow>
      m \<in> set old \<and>
      (\<exists>kw\<in>{''created'', ''scheduled'', ''deleted'', ''updated''}. sublist kw (content m))) \<and>
   (taskAction (m\<lparr>role := r\<rparr>) \<longleftrightarrow> taskAction m) \<and>
   updateSummary (new_ConversationMemory None)
       [\<lparr>role = ''user'', content = ''I created a task'', timestamp = t\<rparr>] =
     (new_ConversationMemory None)\<lparr>summary := CHR 0x0A # ''Previous session: I created a task.''\<rparr> \<and>
   updateSummary (new_ConversationMemory None)
       [\<lparr>role = ''assistant'', content = ''Schedule a meeting'', timestamp = t\<rparr>] =
     new_ConversationMemory None \<and>
   updateSummary (new_ConversationMemory None)
       [\<lparr>role = ''assistant'', content = ''Created task: Team Meeting'', timestamp = t\<rparr>] =
     new_ConversationMemory None \<and>
   summary (updateSummary (new_ConversationMemory None)
       [\<lparr>role = ''user'', content = ''Rescheduled it'', timestamp = t\<rparr>,
        \<lparr>role = ''assistant'', content = ''Deleted the task'', timestamp = t\<rparr>,
        \<lparr>role = ''user'', content = ''you deleted it?'', timestamp = t\<rparr>,
        \<lparr>role = ''assistant'', content = ''Update done'', timestamp = t\<rparr>,
        \<lparr>role = ''assistant'', content = ''updated the title'', timestamp = t\<rparr>]) =
     CHR 0x0A # ''Previous session: Rescheduled it; you deleted it?; updated the title.''"
proof (intro conjI)
  let ?P = "\<lambda>m. \<exists>kw\<in>{''created'', ''scheduled'', ''deleted'', ''updated''}. sublist kw (content m)"
  show "summary (updateSummary cm old) =
     summary cm @
       (if filter ?P old = [] then []
        else (CHR 0x0A # ''Previous session: '') @ join ''; '' (map content (filter ?P old)) @ ''.'')"
    using summary_updateSummary [of cm old] unfolding filter_taskAction .
  show "(summary (updateSummary cm [m]) = summary cm) \<longleftrightarrow> \<not> ?P m"
    by (simp add: summary_updateSummary taskAction_keywords)
  show "updateSummary cm (map (\<lambda>m. m\<lparr>role := f m\<rparr>) old) = updateSummary cm old"
    by (rule updateSummary_role)
  show "m \<in> set (filter taskAction old) \<longleftrightarrow> m \<in> set old \<and> ?P m"
    by (simp only: set_filter mem_Collect_eq taskAction_keywords)
  show "taskAction (m\<lparr>role := r\<rparr>) \<longleftrightarrow> taskAction m"
    by (simp add: taskAction_def)
  show "updateSummary (new_ConversationMemory None)
       [\<lparr>role = ''user'', content = ''I created a task'', timestamp = t\<rparr>] =
     (new_ConversationMemory None)\<lparr>summary := CHR 0x0A # ''Previous session: I created a task.''\<rparr>"
    by (simp add: updateSummary_def taskAction_def new_ConversationMemory_def)
  show "updateSummary (new_ConversationMemory None)
       [\<lparr>role = ''assistant'', content = ''Schedule a meeting'', timestamp = t\<rparr>] =
     new_ConversationMemory None"
    by (simp add: updateSummary_def taskAction_def)
  show "updateSummary (new_ConversationMemory None)
       [\<lparr>role = ''assistant'', content = ''Created task: Team Meeting'', timestamp = t\<rparr>] =
     new_ConversationMemory None"
    by (simp add: updateSummary_def taskAction_def)
  show "summary (updateSummary (new_ConversationMemory None)
       [\<lparr>role = ''user'', content = ''Rescheduled it'', timestamp = t\<rparr>,
        \<lparr>role = ''assistant'', content = ''Deleted the task'', timestamp = t\<rparr>,
        \<lparr>role = ''user'', content = ''you deleted it?'', timestamp = t\<rparr>,
        \<lparr>role = ''assistant'', content = ''Update done'', timestamp = t\<rparr>,
        \<lparr>role = ''assistant'', content = ''updated the title'', timestamp = t\<rparr>]) =
     CHR 0x0A # ''Previous session: Rescheduled it; you deleted it?; updated the title.''"
    by (simp add: updateSummary_def taskAction_def new_ConversationMemory_def)
qed

end
